theory Spec2Isabelle
  imports Main "HOL-Library.Word"
begin

section \<open>JavaScript strings\<close>

text \<open>
  A JavaScript string is a sequence of UTF-16 code units: \<open>length\<close> counts code units
  and \<open>slice\<close> cuts between them. ASCII literals of the source are written with \<open>js\<close>;
  a character outside ASCII is given by its code unit.
\<close>

type_synonym jsstr = "16 word list"

definition js :: "string \<Rightarrow> jsstr" where
  "js s = map of_char s"

text \<open>The one-character string \<open>"\<dots>"\<close> (U+2026) appended by \<open>renderResultados\<close>.\<close>

definition ellipsis :: jsstr where
  "ellipsis = [0x2026]"

text \<open>
  \<open>String.prototype.trim\<close> removes WhiteSpace and LineTerminator code units from both
  ends: TAB, LF, VT, FF, CR, SP, NBSP, U+1680, U+2000 to U+200A, U+2028, U+2029, U+202F,
  U+205F, U+3000 and U+FEFF.
\<close>

definition is_js_space :: "16 word \<Rightarrow> bool" where
  "is_js_space c \<longleftrightarrow>
     c \<in> {0x9, 0xA, 0xB, 0xC, 0xD, 0x20, 0xA0, 0x1680, 0x2028, 0x2029, 0x202F, 0x205F,
          0x3000, 0xFEFF}
     \<or> (0x2000 \<le> c \<and> c \<le> 0x200A)"

definition js_trim :: "jsstr \<Rightarrow> jsstr" where
  "js_trim s = rev (dropWhile is_js_space (rev (dropWhile is_js_space s)))"

text \<open>Decimal text of a non-negative integer, as \<open>String(n)\<close> and \<open>"" + n\<close> give it.\<close>

fun dec :: "nat \<Rightarrow> jsstr" where
  "dec n = (if n < 10 then [48 + of_nat n] else dec (n div 10) @ [48 + of_nat (n mod 10)])"

declare dec.simps [simp del]

definition dec_int :: "int \<Rightarrow> jsstr" where
  "dec_int i = (if i < 0 then js ''-'' @ dec (nat (- i)) else dec (nat i))"

fun join :: "jsstr \<Rightarrow> jsstr list \<Rightarrow> jsstr" where
  "join sep [] = []"
| "join sep [x] = x"
| "join sep (x # y # ys) = x @ sep @ join sep (y # ys)"

section \<open>JavaScript values read from a JSON response\<close>

text \<open>
  \<open>resp.json()\<close> gives null, booleans, numbers, strings, arrays and objects; reading a
  missing property gives \<open>undefined\<close>. An object is the list of its own properties; a
  parsed object has each key once, and none of its values is callable.

  Numbers are IEEE doubles: their type \<open>'n\<close> is left open. What the browser does
  beyond the code of this repository is taken as a parameter, the \<open>engine\<close>: which
  numbers are falsy, the text of a number, whether a number or the number a string
  converts to is greater than 260, \<open>toFixed(4)\<close>, \<open>JSON.stringify(v, null, 2)\<close>, and
  whether the HTML parser, given the markup of an item, builds an element of class
  \<open>btn-detalle\<close>.
\<close>

datatype 'n jsval =
    Undefined
  | Null
  | Bool bool
  | Num 'n
  | Str jsstr
  | Arr "'n jsval list"
  | Obj "(jsstr \<times> 'n jsval) list"

record 'n engine =
  num_falsy :: "'n \<Rightarrow> bool"
  num_text :: "'n \<Rightarrow> jsstr"
  num_gt_260 :: "'n \<Rightarrow> bool"
  str_gt_260 :: "jsstr \<Rightarrow> bool"
  to_fixed_4 :: "'n \<Rightarrow> jsstr"
  json_pretty :: "'n jsval \<Rightarrow> jsstr"
  btn_detalle_found :: "jsstr \<Rightarrow> bool"

datatype js_error =
    TypeError
  | FetchRejected
  | JsonSyntaxError
  | ErrorThrown jsstr

text \<open>
  Property read \<open>v.k\<close> for the fixed names the source uses (never \<open>length\<close>): a
  TypeError on null and undefined, the own property of an object, \<open>undefined\<close> on
  every other value.
\<close>

fun get :: "'n jsval \<Rightarrow> jsstr \<Rightarrow> js_error + 'n jsval" where
  "get Undefined k = Inl TypeError"
| "get Null k = Inl TypeError"
| "get (Obj kvs) k = Inr (case map_of kvs k of None \<Rightarrow> Undefined | Some v \<Rightarrow> v)"
| "get v k = Inr Undefined"

definition bindE :: "js_error + 'a \<Rightarrow> ('a \<Rightarrow> js_error + 'b) \<Rightarrow> js_error + 'b" where
  "bindE m f = (case m of Inl e \<Rightarrow> Inl e | Inr x \<Rightarrow> f x)"

fun truthy :: "'n engine \<Rightarrow> 'n jsval \<Rightarrow> bool" where
  "truthy N Undefined = False"
| "truthy N Null = False"
| "truthy N (Bool b) = b"
| "truthy N (Num n) = (\<not> num_falsy N n)"
| "truthy N (Str s) = (s \<noteq> [])"
| "truthy N (Arr xs) = True"
| "truthy N (Obj kvs) = True"

fun isArray :: "'n jsval \<Rightarrow> bool" where
  "isArray (Arr xs) = True"
| "isArray v = False"

fun elements :: "'n jsval \<Rightarrow> 'n jsval list" where
  "elements (Arr xs) = xs"
| "elements v = []"

fun sequenceE :: "(js_error + 'a) list \<Rightarrow> js_error + 'a list" where
  "sequenceE [] = Inr []"
| "sequenceE (m # ms) = bindE m (\<lambda>x. bindE (sequenceE ms) (\<lambda>xs. Inr (x # xs)))"

text \<open>
  ToString, as template literals, \<open>+\<close> with a string, \<open>textContent\<close> and \<open>href\<close>
  apply it. An array is joined with commas, its null and undefined elements as the
  empty string, the others by ToString in turn, so the first that throws ends it. An
  object is \<open>[object Object]\<close> through \<open>Object.prototype.toString\<close>, unless it has an
  own \<open>toString\<close> property: that value is not callable, \<open>valueOf\<close> gives no primitive
  either, and the conversion throws a TypeError.
\<close>

fun to_string :: "'n engine \<Rightarrow> 'n jsval \<Rightarrow> js_error + jsstr" where
  "to_string N Undefined = Inr (js ''undefined'')"
| "to_string N Null = Inr (js ''null'')"
| "to_string N (Bool b) = Inr (if b then js ''true'' else js ''false'')"
| "to_string N (Num n) = Inr (num_text N n)"
| "to_string N (Str s) = Inr s"
| "to_string N (Arr xs) =
     bindE (sequenceE (map (\<lambda>x. if x = Undefined \<or> x = Null then Inr [] else to_string N x) xs))
       (\<lambda>parts. Inr (join (js '','') parts))"
| "to_string N (Obj kvs) =
     (case map_of kvs (js ''toString'') of
        None \<Rightarrow> Inr (js ''[object Object]'')
      | Some f \<Rightarrow> Inl TypeError)"

section \<open>Reading the hit list and the total (README.md, second main.js)\<close>

definition extraerHits :: "'n engine \<Rightarrow> 'n jsval \<Rightarrow> js_error + 'n jsval list" where
  "extraerHits N data =
     bindE (get data (js ''hits'')) (\<lambda>h.
       if isArray h then Inr (elements h)
       else bindE (if truthy N h
                   then bindE (get h (js ''hits'')) (\<lambda>hh. Inr (isArray hh))
                   else Inr False) (\<lambda>nested.
         if nested then bindE (get h (js ''hits'')) (\<lambda>hh. Inr (elements hh))
         else bindE (get data (js ''resultados'')) (\<lambda>r.
           if isArray r then Inr (elements r) else Inr [])))"

text \<open>
  The same function as the specification words it: a chain of three places, each
  taken when it holds an array. \<open>field\<close> reads a property and gives \<open>undefined\<close> where
  there is none to read.
\<close>

fun field :: "'n jsval \<Rightarrow> jsstr \<Rightarrow> 'n jsval" where
  "field (Obj kvs) k = (case map_of kvs k of None \<Rightarrow> Undefined | Some v \<Rightarrow> v)"
| "field v k = Undefined"

definition extraerHits_spec :: "'n jsval \<Rightarrow> 'n jsval list" where
  "extraerHits_spec data =
     (if isArray (field data (js ''hits'')) then elements (field data (js ''hits''))
      else if isArray (field (field data (js ''hits'')) (js ''hits''))
        then elements (field (field data (js ''hits'')) (js ''hits''))
      else if isArray (field data (js ''resultados''))
        then elements (field data (js ''resultados''))
      else [])"

text \<open>The total is a number of the response or, failing that, the length of the hit list.\<close>

definition extraerTotal :: "'n engine \<Rightarrow> 'n jsval \<Rightarrow> 'n jsval list \<Rightarrow> js_error + ('n + nat)" where
  "extraerTotal N data hits =
     bindE (get data (js ''total'')) (\<lambda>t.
       case t of Num n \<Rightarrow> Inr (Inl n) | _ \<Rightarrow>
       bindE (get data (js ''hits'')) (\<lambda>h.
         bindE (if truthy N h then get h (js ''total'') else Inr Undefined) (\<lambda>ht.
           case ht of Num n \<Rightarrow> Inr (Inl n) | _ \<Rightarrow>
           bindE (if truthy N h \<and> truthy N ht then get ht (js ''value'') else Inr Undefined) (\<lambda>v.
             case v of Num n \<Rightarrow> Inr (Inl n) | _ \<Rightarrow> Inr (Inr (length hits))))))"

section \<open>The search page of the second main.js (README.md, lines 143 to 371)\<close>

text \<open>
  The submit listener is installed only when the form, the input, the alert, the
  results section, the results container and the total span all exist, so the state
  it works on holds them all. Text properties hold strings; the class list of the
  section is its list of tokens; the container holds what \<open>innerHTML\<close> was set to
  and the items appended after it. One run of the listener is followed from the event
  to the end of its continuation, with no other event handled in between.

  An item is the \<open>div\<close> the loop creates: its class and the markup assigned to its
  \<open>innerHTML\<close>. What the HTML parser builds from that markup is the browser's; the
  code asks it one thing, the element of class \<open>btn-detalle\<close>, and throws a TypeError
  at \<open>btnDetalle.addEventListener\<close> when there is none. The click listener itself is
  not part of a submission.
\<close>

record item =
  item_className :: jsstr
  item_innerHTML :: jsstr

datatype child = Html jsstr | HitItem item

datatype body = ElasticBody jsstr nat | BuscarBody jsstr

record request =
  url :: jsstr
  http_method :: jsstr
  headers :: "(jsstr \<times> jsstr) list"
  payload :: body

text \<open>
  What \<open>await fetch(...)\<close> and \<open>await resp.json()\<close> give: the call rejects, or it
  answers with a status and a body that parses as JSON or does not.
\<close>

datatype 'n fetch_result = Rejected | Responded nat "'n jsval option"

definition resp_ok :: "nat \<Rightarrow> bool" where
  "resp_ok status \<longleftrightarrow> 200 \<le> status \<and> status \<le> 299"

record 'n buscador =
  input_value :: jsstr
  alerta_textContent :: jsstr
  alerta_className :: jsstr
  alerta_maxWidth :: jsstr
  seccion_classList :: "jsstr list"
  contenedor :: "child list"
  total_textContent :: jsstr
  ultimaBusqueda :: "'n jsval list"
  defaultPrevented :: bool
  peticiones :: "request list"
  console_errors :: "js_error list"

definition classList_add :: "jsstr \<Rightarrow> jsstr list \<Rightarrow> jsstr list" where
  "classList_add c cs = (if c \<in> set cs then cs else cs @ [c])"

definition classList_remove :: "jsstr \<Rightarrow> jsstr list \<Rightarrow> jsstr list" where
  "classList_remove c cs = filter (\<lambda>x. x \<noteq> c) cs"

definition mostrarAlerta :: "jsstr \<Rightarrow> jsstr \<Rightarrow> 'n buscador \<Rightarrow> 'n buscador" where
  "mostrarAlerta mensaje tipo st =
     st\<lparr>alerta_textContent := mensaje,
        alerta_className := js ''alert alert-'' @ tipo @ js '' mx-auto'',
        alerta_maxWidth := js ''980px''\<rparr>"

definition ocultarAlerta :: "'n buscador \<Rightarrow> 'n buscador" where
  "ocultarAlerta st =
     st\<lparr>alerta_textContent := [], alerta_className := js ''alert d-none mx-auto''\<rparr>"

definition limpiarResultados :: "'n buscador \<Rightarrow> 'n buscador" where
  "limpiarResultados st =
     st\<lparr>contenedor := [],
        seccion_classList := classList_add (js ''d-none'') (seccion_classList st),
        total_textContent := js ''0''\<rparr>"

text \<open>\<open>a.k1 || a.k2 || ... || d\<close>: the first truthy property, else the last operand.\<close>

fun first_truthy :: "'n engine \<Rightarrow> 'n jsval \<Rightarrow> jsstr list \<Rightarrow> 'n jsval \<Rightarrow> js_error + 'n jsval" where
  "first_truthy N src [] d = Inr d"
| "first_truthy N src (k # ks) d =
     bindE (get src k) (\<lambda>v. if truthy N v then Inr v else first_truthy N src ks d)"

text \<open>
  \<open>l > 260\<close> for a value \<open>l\<close> read from JSON: null, undefined and booleans convert to
  numbers that are not greater; a number and a string are compared by the engine; an
  array or an object is first converted to a string, which may throw.
\<close>

fun gt_260 :: "'n engine \<Rightarrow> 'n jsval \<Rightarrow> js_error + bool" where
  "gt_260 N Undefined = Inr False"
| "gt_260 N Null = Inr False"
| "gt_260 N (Bool b) = Inr False"
| "gt_260 N (Num n) = Inr (num_gt_260 N n)"
| "gt_260 N (Str s) = Inr (str_gt_260 N s)"
| "gt_260 N v = bindE (to_string N v) (\<lambda>s. Inr (str_gt_260 N s))"

text \<open>
  \<open>snippet.length > 260\<close>: the code units of a string, the elements of an array, the
  own \<open>length\<close> property of an object, \<open>undefined\<close> (so false) on numbers and
  booleans.
\<close>

fun length_gt_260 :: "'n engine \<Rightarrow> 'n jsval \<Rightarrow> js_error + bool" where
  "length_gt_260 N (Str s) = Inr (260 < length s)"
| "length_gt_260 N (Arr xs) = Inr (260 < length xs)"
| "length_gt_260 N (Obj kvs) =
     (case map_of kvs (js ''length'') of None \<Rightarrow> Inr False | Some l \<Rightarrow> gt_260 N l)"
| "length_gt_260 N (Num n) = Inr False"
| "length_gt_260 N (Bool b) = Inr False"
| "length_gt_260 N Null = Inl TypeError"
| "length_gt_260 N Undefined = Inl TypeError"

text \<open>
  \<open>snippet.slice(0, 260) + "\<dots>"\<close>: a string keeps its first 260 code units, an array
  its first 260 elements, joined into a string by \<open>+\<close>; nothing else read from JSON
  has a callable \<open>slice\<close>.
\<close>

fun slice_260_ellipsis :: "'n engine \<Rightarrow> 'n jsval \<Rightarrow> js_error + 'n jsval" where
  "slice_260_ellipsis N (Str s) = Inr (Str (take 260 s @ ellipsis))"
| "slice_260_ellipsis N (Arr xs) =
     bindE (to_string N (Arr (take 260 xs))) (\<lambda>s. Inr (Str (s @ ellipsis)))"
| "slice_260_ellipsis N v = Inl TypeError"

definition titulo_por_defecto :: jsstr where
  "titulo_por_defecto = js ''Documento sin t'' @ [0xED] @ js ''tulo''"

text \<open>Lines 231 to 269: the constants the loop body computes from one hit.\<close>

definition source_of :: "'n engine \<Rightarrow> 'n jsval \<Rightarrow> js_error + 'n jsval" where
  "source_of N hit = first_truthy N hit [js ''_source'', js ''source''] hit"

definition titulo_of :: "'n engine \<Rightarrow> 'n jsval \<Rightarrow> js_error + 'n jsval" where
  "titulo_of N src =
     first_truthy N src [js ''titulo'', js ''nombre_archivo''] (Str titulo_por_defecto)"

definition textoLargo_of :: "'n engine \<Rightarrow> 'n jsval \<Rightarrow> js_error + 'n jsval" where
  "textoLargo_of N src =
     first_truthy N src [js ''resumen'', js ''extracto'', js ''texto'', js ''contenido'']
       (Str [])"

definition snippet_of :: "'n engine \<Rightarrow> 'n jsval \<Rightarrow> 'n jsval \<Rightarrow> js_error + 'n jsval" where
  "snippet_of N textoLargo titulo =
     (let snippet = (if truthy N textoLargo then textoLargo else titulo)
      in bindE (length_gt_260 N snippet) (\<lambda>long.
           if long then slice_260_ellipsis N snippet else Inr snippet))"

record 'n hit_values =
  v_source :: "'n jsval"
  v_anio :: "'n jsval"
  v_tipo :: "'n jsval"
  v_entidad :: "'n jsval"
  v_titulo :: "'n jsval"
  v_snippet :: "'n jsval"
  v_score :: "jsstr option"

definition hit_values_of :: "'n engine \<Rightarrow> 'n jsval \<Rightarrow> js_error + 'n hit_values" where
  "hit_values_of N hit =
     bindE (source_of N hit) (\<lambda>src.
     bindE (first_truthy N src
              [js ''anio'', js ''a'' @ [0xF1] @ js ''o'', js ''anio_publicacion'', js ''fecha'']
              (Str [])) (\<lambda>anio.
     bindE (first_truthy N src [js ''tipo_norma'', js ''tipo_documento'', js ''tipo'']
              (Str [])) (\<lambda>tipo.
     bindE (first_truthy N src [js ''entidad'', js ''emisor'', js ''organismo'']
              (Str [])) (\<lambda>entidad.
     bindE (titulo_of N src) (\<lambda>titulo.
     bindE (textoLargo_of N src) (\<lambda>textoLargo.
     bindE (snippet_of N textoLargo titulo) (\<lambda>snippet.
     bindE (get hit (js ''_score'')) (\<lambda>sc.
       Inr \<lparr>v_source = src, v_anio = anio, v_tipo = tipo, v_entidad = entidad,
            v_titulo = titulo, v_snippet = snippet,
            v_score = (case sc of Num n \<Rightarrow> Some (to_fixed_4 N n) | _ \<Rightarrow> None)\<rparr>))))))))"

text \<open>
  Lines 274 to 298: the template literal, first as the text around the strings it is
  given, then with the conversions of the values it interpolates. A falsy year, type
  or entity and a missing score leave the empty string.
\<close>

definition span_me_2 :: "jsstr \<Rightarrow> jsstr \<Rightarrow> jsstr" where
  "span_me_2 label valor =
     js ''<span class=\"me-2\"><strong>'' @ label @ js '':</strong> '' @ valor @ js ''</span>''"

definition badge_score :: "jsstr \<Rightarrow> jsstr" where
  "badge_score score = js ''<span class=\"badge bg-secondary\">score '' @ score @ js ''</span>''"

definition plantilla :: "jsstr \<Rightarrow> jsstr \<Rightarrow> jsstr \<Rightarrow> jsstr \<Rightarrow> jsstr \<Rightarrow> jsstr \<Rightarrow> jsstr \<Rightarrow> jsstr \<Rightarrow> jsstr" where
  "plantilla titulo anio tipo entidad score numero snippet json =
     js ''\<newline>        <div class=\"d-flex w-100 justify-content-between\">\<newline>''
     @ js ''          <div>\<newline>''
     @ js ''            <h5 class=\"mb-1\">'' @ titulo @ js ''</h5>\<newline>''
     @ js ''            <div class=\"small text-muted\">\<newline>''
     @ js ''              '' @ anio @ js ''\<newline>''
     @ js ''              '' @ tipo @ js ''\<newline>''
     @ js ''              '' @ entidad @ js ''\<newline>''
     @ js ''            </div>\<newline>''
     @ js ''          </div>\<newline>''
     @ js ''          <div class=\"text-end\">\<newline>''
     @ js ''            '' @ score @ js ''\<newline>''
     @ js ''            <div class=\"small text-muted\">#'' @ numero @ js ''</div>\<newline>''
     @ js ''          </div>\<newline>''
     @ js ''        </div>\<newline>''
     @ js ''        <p class=\"mb-1 mt-2\">'' @ snippet @ js ''</p>\<newline>''
     @ js ''        <button type=\"button\" class=\"btn btn-sm btn-outline-secondary mt-2 btn-detalle\">\<newline>''
     @ js ''          Ver detalle\<newline>''
     @ js ''        </button>\<newline>''
     @ js ''        <div class=\"mt-2 d-none detalle-json\">\<newline>''
     @ js ''          <pre class=\"bg-light border rounded p-2 small mb-0\" style=\"max-height: 300px; overflow-y: auto;\">\<newline>''
     @ json @ js ''\<newline>''
     @ js ''          </pre>\<newline>''
     @ js ''        </div>\<newline>''
     @ js ''      ''"

definition span_of :: "'n engine \<Rightarrow> jsstr \<Rightarrow> 'n jsval \<Rightarrow> js_error + jsstr" where
  "span_of N label v =
     (if truthy N v then bindE (to_string N v) (\<lambda>s. Inr (span_me_2 label s)) else Inr [])"

definition plantilla_item :: "'n engine \<Rightarrow> nat \<Rightarrow> 'n hit_values \<Rightarrow> js_error + jsstr" where
  "plantilla_item N index v =
     bindE (to_string N (v_titulo v)) (\<lambda>titulo.
     bindE (span_of N (js ''A'' @ [0xF1] @ js ''o'') (v_anio v)) (\<lambda>anio.
     bindE (span_of N (js ''Tipo'') (v_tipo v)) (\<lambda>tipo.
     bindE (span_of N (js ''Entidad'') (v_entidad v)) (\<lambda>entidad.
     bindE (to_string N (v_snippet v)) (\<lambda>snippet.
       Inr (plantilla titulo anio tipo entidad
              (case v_score v of None \<Rightarrow> [] | Some score \<Rightarrow> badge_score score)
              (dec (index + 1)) snippet (json_pretty N (v_source v))))))))"

text \<open>
  Lines 271 to 315: one pass of the loop body. The item is appended only when every
  step before \<open>appendChild\<close> went through.
\<close>

definition render_hit :: "'n engine \<Rightarrow> nat \<Rightarrow> 'n jsval \<Rightarrow> js_error + item" where
  "render_hit N index hit =
     bindE (hit_values_of N hit) (\<lambda>v.
     bindE (plantilla_item N index v) (\<lambda>html.
       if btn_detalle_found N html
       then Inr \<lparr>item_className =
                   js ''list-group-item list-group-item-action flex-column align-items-start'',
                 item_innerHTML = html\<rparr>
       else Inl TypeError))"

text \<open>
  \<open>hits.forEach\<close>: one item appended per hit; an exception leaves the items appended
  so far and ends the loop.
\<close>

fun render_hits :: "'n engine \<Rightarrow> nat \<Rightarrow> 'n jsval list \<Rightarrow> 'n buscador \<Rightarrow> 'n buscador \<times> js_error option" where
  "render_hits N index [] st = (st, None)"
| "render_hits N index (hit # hits) st =
     (case render_hit N index hit of
        Inl e \<Rightarrow> (st, Some e)
      | Inr it \<Rightarrow> render_hits N (index + 1) hits (st\<lparr>contenedor := contenedor st @ [HitItem it]\<rparr>))"

definition sin_resultados :: jsstr where
  "sin_resultados = js ''No se encontraron resultados.''"

definition sin_resultados_html :: jsstr where
  "sin_resultados_html =
     js ''<div class=\"list-group-item text-center text-muted\">'' @ sin_resultados @ js ''</div>''"

definition total_text :: "'n engine \<Rightarrow> 'n + nat \<Rightarrow> jsstr" where
  "total_text N tot = (case tot of Inl n \<Rightarrow> num_text N n | Inr k \<Rightarrow> dec k)"

definition renderResultados :: "'n engine \<Rightarrow> 'n jsval \<Rightarrow> 'n buscador \<Rightarrow> 'n buscador \<times> js_error option" where
  "renderResultados N data st =
     (case extraerHits N data of
        Inl e \<Rightarrow> (st, Some e)
      | Inr hits \<Rightarrow>
         (case extraerTotal N data hits of
            Inl e \<Rightarrow> (st, Some e)
          | Inr tot \<Rightarrow>
             (let st1 = st\<lparr>ultimaBusqueda := hits, contenedor := [],
                           total_textContent := total_text N tot\<rparr>
              in if hits = []
                 then (st1\<lparr>contenedor := [Html sin_resultados_html],
                           seccion_classList :=
                             classList_remove (js ''d-none'') (seccion_classList st1)\<rparr>,
                       None)
                 else (case render_hits N 0 hits st1 of
                         (st2, Some e) \<Rightarrow> (st2, Some e)
                       | (st2, None) \<Rightarrow>
                           (st2\<lparr>seccion_classList :=
                                  classList_remove (js ''d-none'') (seccion_classList st2)\<rparr>,
                            None)))))"

text \<open>Lines 324 to 370: the submit listener, run with what the network answers.\<close>

definition peticion_elastic :: "jsstr \<Rightarrow> request" where
  "peticion_elastic texto =
     \<lparr>url = js ''/buscar-elastic'', http_method = js ''POST'',
      headers = [(js ''Content-Type'', js ''application/json'')],
      payload = ElasticBody texto 20\<rparr>"

definition error_comunicacion :: jsstr where
  "error_comunicacion = js ''Error de comunicaci'' @ [0xF3] @ js ''n con el servidor.''"

definition error_busqueda :: jsstr where
  "error_busqueda = js ''Error en la b'' @ [0xFA] @ js ''squeda.''"

definition error_http :: "nat \<Rightarrow> jsstr" where
  "error_http status = js ''Error al comunicarse con el servidor (HTTP '' @ dec status @ js '').''"

definition capturado :: "js_error \<Rightarrow> 'n buscador \<Rightarrow> 'n buscador" where
  "capturado err st =
     mostrarAlerta error_comunicacion (js ''danger'')
       (st\<lparr>console_errors := console_errors st @ [err]\<rparr>)"

definition submit_elastic :: "'n engine \<Rightarrow> 'n fetch_result \<Rightarrow> 'n buscador \<Rightarrow> 'n buscador" where
  "submit_elastic N net st =
     (let st0 = st\<lparr>defaultPrevented := True\<rparr>;
          texto = js_trim (if input_value st0 = [] then [] else input_value st0)
      in if texto = []
         then mostrarAlerta (js ''Por favor ingresa un texto para buscar.'') (js ''warning'') st0
         else
           (let st1 = mostrarAlerta (js ''Buscando documentos... por favor espera.'') (js ''info'')
                        (limpiarResultados st0);
                st2 = st1\<lparr>peticiones := peticiones st1 @ [peticion_elastic texto]\<rparr>
            in case net of
                 Rejected \<Rightarrow> capturado FetchRejected st2
               | Responded status parsed \<Rightarrow>
                   if \<not> resp_ok status
                   then mostrarAlerta (error_http status) (js ''danger'') st2
                   else (case parsed of
                           None \<Rightarrow> capturado JsonSyntaxError st2
                         | Some data \<Rightarrow>
                            (case get data (js ''success'') of
                               Inl e \<Rightarrow> capturado e st2
                             | Inr success \<Rightarrow>
                                if success = Bool False
                                then (case get data (js ''error'') of
                                        Inl e \<Rightarrow> capturado e st2
                                      | Inr err \<Rightarrow>
                                          (case to_string N
                                                  (if truthy N err then err
                                                   else Str error_busqueda) of
                                             Inl e \<Rightarrow> capturado e st2
                                           | Inr mensaje \<Rightarrow>
                                               mostrarAlerta mensaje (js ''danger'') st2))
                                else (case renderResultados N data (ocultarAlerta st2) of
                                        (st3, Some e) \<Rightarrow> capturado e st3
                                      | (st3, None) \<Rightarrow> st3)))))"

section \<open>The search page of the third main.js (README.md, lines 373 to 459)\<close>

text \<open>
  Here the listener looks its elements up when it runs, and each may be missing:
  \<open>getElementById\<close> gives null then. The alert is written through its \<open>className\<close>
  and its \<open>classList\<close>, so its class attribute is a string and \<open>classList.remove\<close>
  rewrites it from its tokens (split at ASCII whitespace, each kept once, joined by
  single spaces).
\<close>

record alerta =
  alerta_texto :: jsstr
  alerta_clase :: jsstr

record doc_item =
  doc_href :: jsstr
  doc_target :: jsstr
  doc_className :: jsstr
  doc_innerHTML :: jsstr

record pagina_buscar =
  b_input :: "jsstr option"
  b_alerta :: "alerta option"
  b_seccion :: "jsstr list option"
  b_contenedor :: "doc_item list option"
  b_defaultPrevented :: bool
  b_peticiones :: "request list"
  b_console_errors :: "js_error list"
  b_uncaught :: "js_error option"

definition ascii_whitespace :: "16 word \<Rightarrow> bool" where
  "ascii_whitespace c \<longleftrightarrow> c \<in> {0x9, 0xA, 0xC, 0xD, 0x20}"

fun split_tokens :: "jsstr \<Rightarrow> jsstr \<Rightarrow> jsstr list" where
  "split_tokens cur [] = (if cur = [] then [] else [cur])"
| "split_tokens cur (c # cs) =
     (if ascii_whitespace c
      then (if cur = [] then [] else [cur]) @ split_tokens [] cs
      else split_tokens (cur @ [c]) cs)"

definition token_set :: "jsstr \<Rightarrow> jsstr list" where
  "token_set cls = rev (remdups (rev (split_tokens [] cls)))"

definition className_remove :: "jsstr \<Rightarrow> jsstr \<Rightarrow> jsstr" where
  "className_remove c cls = join (js '' '') (filter (\<lambda>x. x \<noteq> c) (token_set cls))"

text \<open>Lines 453 to 459: the global \<open>mostrarAlerta(elemento, mensaje, tipo)\<close>.\<close>

definition mostrarAlerta3 :: "alerta option \<Rightarrow> jsstr \<Rightarrow> jsstr \<Rightarrow> alerta option" where
  "mostrarAlerta3 elemento mensaje tipo =
     (case elemento of
        None \<Rightarrow> None
      | Some el \<Rightarrow>
          Some (el\<lparr>alerta_texto := mensaje,
                  alerta_clase := className_remove (js ''d-none'') (js ''alert alert-'' @ tipo)\<rparr>))"

text \<open>Lines 427 to 439: the link created for one document, and its template literal.\<close>

definition plantilla_doc :: "jsstr \<Rightarrow> jsstr \<Rightarrow> jsstr \<Rightarrow> jsstr \<Rightarrow> jsstr" where
  "plantilla_doc titulo fecha resumen fuente =
     js ''\<newline>            <div class=\"d-flex w-100 justify-content-between\">\<newline>''
     @ js ''              <h5 class=\"mb-1\">'' @ titulo @ js ''</h5>\<newline>''
     @ js ''              <small>'' @ fecha @ js ''</small>\<newline>''
     @ js ''            </div>\<newline>''
     @ js ''            <p class=\"mb-1\">'' @ resumen @ js ''</p>\<newline>''
     @ js ''            <small>'' @ fuente @ js ''</small>\<newline>''
     @ js ''          ''"

text \<open>
  \<open>item.href = ...\<close>: the attribute takes the string with every unpaired surrogate
  replaced by U+FFFD.
\<close>

definition is_surrogate_high :: "16 word \<Rightarrow> bool" where
  "is_surrogate_high c \<longleftrightarrow> 0xD800 \<le> c \<and> c \<le> 0xDBFF"

definition is_surrogate_low :: "16 word \<Rightarrow> bool" where
  "is_surrogate_low c \<longleftrightarrow> 0xDC00 \<le> c \<and> c \<le> 0xDFFF"

fun usv_string :: "jsstr \<Rightarrow> jsstr" where
  "usv_string [] = []"
| "usv_string [c] = (if is_surrogate_high c \<or> is_surrogate_low c then [0xFFFD] else [c])"
| "usv_string (c # d # cs) =
     (if is_surrogate_high c
      then (if is_surrogate_low d then c # d # usv_string cs else 0xFFFD # usv_string (d # cs))
      else if is_surrogate_low c then 0xFFFD # usv_string (d # cs)
      else c # usv_string (d # cs))"

definition text_or :: "'n engine \<Rightarrow> 'n jsval \<Rightarrow> jsstr \<Rightarrow> jsstr \<Rightarrow> js_error + jsstr" where
  "text_or N doc k d =
     bindE (first_truthy N doc [k] (Str d)) (\<lambda>v. to_string N v)"

definition render_doc :: "'n engine \<Rightarrow> 'n jsval \<Rightarrow> js_error + doc_item" where
  "render_doc N doc =
     bindE (text_or N doc (js ''url'') (js ''#'')) (\<lambda>href.
     bindE (get doc (js ''url'')) (\<lambda>u.
     bindE (text_or N doc (js ''titulo'') titulo_por_defecto) (\<lambda>titulo.
     bindE (text_or N doc (js ''fecha'') []) (\<lambda>fecha.
     bindE (text_or N doc (js ''resumen'') []) (\<lambda>resumen.
     bindE (text_or N doc (js ''fuente'') []) (\<lambda>fuente.
       Inr \<lparr>doc_href = usv_string href,
            doc_target = (if truthy N u then js ''_blank'' else js ''_self''),
            doc_className = js ''list-group-item list-group-item-action'',
            doc_innerHTML = plantilla_doc titulo fecha resumen fuente\<rparr>))))))"

fun render_docs :: "'n engine \<Rightarrow> 'n jsval list \<Rightarrow> doc_item list \<Rightarrow> doc_item list \<times> js_error option" where
  "render_docs N [] items = (items, None)"
| "render_docs N (doc # docs) items =
     (case render_doc N doc of
        Inl e \<Rightarrow> (items, Some e)
      | Inr it \<Rightarrow> render_docs N docs (items @ [it]))"

definition peticion_buscar :: "jsstr \<Rightarrow> request" where
  "peticion_buscar query =
     \<lparr>url = js ''/buscar'', http_method = js ''POST'',
      headers = [(js ''Content-Type'', js ''application/json'')],
      payload = BuscarBody query\<rparr>"

definition capturado3 :: "js_error \<Rightarrow> pagina_buscar \<Rightarrow> pagina_buscar" where
  "capturado3 err p =
     p\<lparr>b_console_errors := b_console_errors p @ [err],
       b_alerta := mostrarAlerta3 (b_alerta p) error_comunicacion (js ''danger'')\<rparr>"

definition respuesta_no_valida :: jsstr where
  "respuesta_no_valida = js ''Respuesta no v'' @ [0xE1] @ js ''lida del servidor''"

definition sin_documentos :: jsstr where
  "sin_documentos =
     js ''No se encontraron documentos para esa b'' @ [0xFA] @ js ''squeda.''"

definition se_encontraron :: "nat \<Rightarrow> jsstr" where
  "se_encontraron n = js ''Se encontraron '' @ dec n @ js '' documentos.''"

text \<open>
  Lines 385 to 449. The two writes to the results section and container come before
  the \<open>try\<close>: on a missing element they throw out of the listener, and nothing after
  them runs.
\<close>

definition submit_buscar :: "'n engine \<Rightarrow> 'n fetch_result \<Rightarrow> pagina_buscar \<Rightarrow> pagina_buscar" where
  "submit_buscar N net p =
     (let p0 = p\<lparr>b_defaultPrevented := True\<rparr>
      in case b_input p0 of
           None \<Rightarrow> p0
         | Some v \<Rightarrow>
            (let query = js_trim v
             in if query = []
                then p0\<lparr>b_alerta :=
                          mostrarAlerta3 (b_alerta p0)
                            (js ''Debes escribir un texto de b'' @ [0xFA] @ js ''squeda.'')
                            (js ''warning'')\<rparr>
                else
                  (let p1 = p0\<lparr>b_alerta :=
                                 mostrarAlerta3 (b_alerta p0) (js ''Buscando'' @ ellipsis)
                                   (js ''info'')\<rparr>
                   in case b_seccion p1 of
                        None \<Rightarrow> p1\<lparr>b_uncaught := Some TypeError\<rparr>
                      | Some cl \<Rightarrow>
                         (let p2 = p1\<lparr>b_seccion := Some (classList_add (js ''d-none'') cl)\<rparr>
                          in case b_contenedor p2 of
                               None \<Rightarrow> p2\<lparr>b_uncaught := Some TypeError\<rparr>
                             | Some old \<Rightarrow>
                                (let p3 = p2\<lparr>b_contenedor := Some [],
                                             b_peticiones :=
                                               b_peticiones p2 @ [peticion_buscar query]\<rparr>
                                 in case net of
                                      Rejected \<Rightarrow> capturado3 FetchRejected p3
                                    | Responded status parsed \<Rightarrow>
                                       if \<not> resp_ok status
                                       then capturado3 (ErrorThrown respuesta_no_valida) p3
                                       else
                                        (case parsed of
                                           None \<Rightarrow> capturado3 JsonSyntaxError p3
                                         | Some data \<Rightarrow>
                                            (case get data (js ''resultados'') of
                                               Inl e \<Rightarrow> capturado3 e p3
                                             | Inr r \<Rightarrow>
                                                if \<not> isArray r \<or> length (elements r) = 0
                                                then p3\<lparr>b_alerta :=
                                                          mostrarAlerta3 (b_alerta p3)
                                                            sin_documentos (js ''warning'')\<rparr>
                                                else
                                                 (case render_docs N (elements r) [] of
                                                    (items, Some e) \<Rightarrow>
                                                      capturado3 e
                                                        (p3\<lparr>b_contenedor := Some items\<rparr>)
                                                  | (items, None) \<Rightarrow>
                                                      p3\<lparr>b_contenedor := Some items,
                                                         b_seccion :=
                                                           Some (classList_remove (js ''d-none'')
                                                                  (classList_add (js ''d-none'') cl)),
                                                         b_alerta :=
                                                           mostrarAlerta3 (b_alerta p3)
                                                             (se_encontraron (length (elements r)))
                                                             (js ''success'')\<rparr>))))))))"

section \<open>The landing form of the first main.js (README.md, lines 83 to 116)\<close>

text \<open>
  \<open>initSearchForm\<close> installs its listener only when the form, the input and the
  button exist. The input sits inside the form, as the documented markup has it, so
  \<open>q_feedback\<close> is the text of the first \<open>.invalid-feedback\<close> element of the form, if
  there is one. This listener calls no \<open>fetch\<close>: the only request a submit can
  cause is the browser's own form submission, which \<open>preventDefault\<close> blocks.
\<close>

record formulario =
  q_input_value :: jsstr
  q_input_classList :: "jsstr list"
  q_feedback :: "jsstr option"
  q_btn_disabled :: bool
  q_btn_originalText :: "jsstr option"
  q_btn_textContent :: jsstr
  q_btn_innerHTML :: jsstr
  q_defaultPrevented :: bool

definition ingresa_termino :: jsstr where
  "ingresa_termino =
     js ''Por favor ingresa un t'' @ [0xE9] @ js ''rmino de b'' @ [0xFA] @ js ''squeda.''"

definition spinner_html :: jsstr where
  "spinner_html =
     js ''<span class=\"spinner-border spinner-border-sm me-1\" role=\"status\" aria-hidden=\"true\"></span>Buscando...''"

definition submit_landing :: "formulario \<Rightarrow> formulario" where
  "submit_landing st =
     (let query = js_trim (q_input_value st)
      in if query = []
         then st\<lparr>q_defaultPrevented := True,
                 q_input_classList := classList_add (js ''is-invalid'') (q_input_classList st),
                 q_feedback := (case q_feedback st of
                                  None \<Rightarrow> Some ingresa_termino
                                | Some f \<Rightarrow> Some f)\<rparr>
         else
           (let originalText =
                  (case q_btn_originalText st of
                     None \<Rightarrow> q_btn_textContent st
                   | Some t \<Rightarrow> if t = [] then q_btn_textContent st else t)
            in st\<lparr>q_input_classList :=
                      classList_remove (js ''is-invalid'') (q_input_classList st),
                    q_btn_disabled := True,
                    q_btn_originalText := Some originalText,
                    q_btn_innerHTML := spinner_html,
                    q_btn_textContent := js ''Buscando...''\<rparr>))"

section \<open>The footer year (static/js/main.js, and the first lines of each README listing)\<close>

text \<open>
  \<open>current_year\<close> is the text of the element with id \<open>current-year\<close>, if the page has
  one; the year is what \<open>new Date().getFullYear()\<close> gives when the page loads.
\<close>

record documento =
  current_year :: "jsstr option"

definition onDOMContentLoaded :: "int \<Rightarrow> 'a documento_scheme \<Rightarrow> 'a documento_scheme" where
  "onDOMContentLoaded fullYear d =
     (case current_year d of
        None \<Rightarrow> d
      | Some yearSpan \<Rightarrow> d\<lparr>current_year := Some (dec_int fullYear)\<rparr>)"

section \<open>A concrete engine and concrete pages\<close>

text \<open>
  An engine whose numbers are integers: zero is falsy, a number prints in decimal and
  is compared as it is, \<open>toFixed(4)\<close> appends four zeros. What integers do not
  determine (the number a string converts to, \<open>JSON.stringify\<close>, the HTML parser) is
  left unspecified; the examples below do not depend on it.
\<close>

definition int_engine :: "int engine" where
  "int_engine =
     \<lparr>num_falsy = (\<lambda>n. n = 0), num_text = dec_int, num_gt_260 = (\<lambda>n. 260 < n),
      str_gt_260 = undefined, to_fixed_4 = (\<lambda>n. dec_int n @ js ''.0000''),
      json_pretty = undefined, btn_detalle_found = undefined\<rparr>"

definition pagina_inicial :: "int buscador" where
  "pagina_inicial =
     \<lparr>input_value = js ''ley'', alerta_textContent = [],
      alerta_className = js ''alert d-none mx-auto'', alerta_maxWidth = [],
      seccion_classList = [js ''container'', js ''d-none''], contenedor = [],
      total_textContent = js ''0'', ultimaBusqueda = [], defaultPrevented = False,
      peticiones = [], console_errors = []\<rparr>"

definition pagina_buscar_inicial :: pagina_buscar where
  "pagina_buscar_inicial =
     \<lparr>b_input = Some (js ''ley''),
      b_alerta = Some \<lparr>alerta_texto = [], alerta_clase = js ''alert d-none''\<rparr>,
      b_seccion = Some [js ''d-none''], b_contenedor = Some [],
      b_defaultPrevented = False, b_peticiones = [], b_console_errors = [],
      b_uncaught = None\<rparr>"

definition formulario_inicial :: formulario where
  "formulario_inicial =
     \<lparr>q_input_value = js ''   '', q_input_classList = [js ''form-control''],
      q_feedback = None, q_btn_disabled = False, q_btn_originalText = None,
      q_btn_textContent = js ''Buscar'', q_btn_innerHTML = js ''Buscar'',
      q_defaultPrevented = False\<rparr>"

text \<open>\<open>contiene p s\<close>: the string \<open>p\<close> occurs in \<open>s\<close>.\<close>

fun contiene :: "jsstr \<Rightarrow> jsstr \<Rightarrow> bool" where
  "contiene p [] = (p = [])"
| "contiene p (c # cs) = (take (length p) (c # cs) = p \<or> contiene p cs)"

definition pagina_sin_seccion :: pagina_buscar where
  "pagina_sin_seccion = pagina_buscar_inicial\<lparr>b_seccion := None\<rparr>"

definition pagina_sin_alerta :: pagina_buscar where
  "pagina_sin_alerta = pagina_buscar_inicial\<lparr>b_alerta := None\<rparr>"

definition data_vacia :: "int jsval" where
  "data_vacia = Obj [(js ''hits'', Obj [(js ''total'', Num 0), (js ''hits'', Arr [])])]"

definition data_fallida :: "int jsval" where
  "data_fallida = Obj [(js ''success'', Bool False)]"

definition hit_largo :: "int jsval" where
  "hit_largo =
     Obj [(js ''_source'',
           Obj [(js ''titulo'', Str (js ''Ley 142'')), (js ''texto'', Str (replicate 300 0x61))])]"


section \<open>Properties\<close>

subsection \<open>Reading properties\<close>

lemma get_defined: "v \<noteq> Null \<Longrightarrow> v \<noteq> Undefined \<Longrightarrow> get v k = Inr (field v k)"
  by (cases v) simp_all

lemma field_falsy: "\<not> truthy N v \<Longrightarrow> field v k = Undefined"
  by (cases v) simp_all

lemma get_truthy: "truthy N v \<Longrightarrow> get v k = Inr (field v k)"
  by (cases v) simp_all

lemma truthy_defined: "truthy N v \<Longrightarrow> v \<noteq> Null \<and> v \<noteq> Undefined"
  by (cases v) simp_all

lemma first_truthy_defined:
  assumes "src \<noteq> Null" and "src \<noteq> Undefined"
  shows "\<exists>v. first_truthy N src ks d = Inr v"
  using assms by (induction ks) (simp_all add: bindE_def get_defined)

lemma first_truthy_result:
  "first_truthy N src ks d = Inr v \<Longrightarrow> v = d \<or> truthy N v"
  by (induction ks) (auto simp: bindE_def split: sum.splits if_splits)

lemma source_of_defined:
  assumes "source_of N hit = Inr src"
  shows "src \<noteq> Null \<and> src \<noteq> Undefined \<and> hit \<noteq> Null \<and> hit \<noteq> Undefined"
proof -
  have h: "hit \<noteq> Null \<and> hit \<noteq> Undefined"
    using assms by (cases hit) (auto simp: source_of_def bindE_def)
  from assms have "src = hit \<or> truthy N src"
    unfolding source_of_def by (rule first_truthy_result)
  with h show ?thesis using truthy_defined by blast
qed

lemma extraerTotal_defined:
  assumes "data \<noteq> Null" and "data \<noteq> Undefined"
  shows "\<exists>t. extraerTotal N data hits = Inr t"
proof -
  have g: "\<And>k. get data k = Inr (field data k)" using assms by (simp add: get_defined)
  show ?thesis
    by (auto simp: extraerTotal_def bindE_def g get_truthy split: jsval.splits)
qed

lemma extraerHits_defined:
  "extraerHits N data = Inr hs \<Longrightarrow> data \<noteq> Null \<and> data \<noteq> Undefined"
  by (cases data) (simp_all add: extraerHits_def bindE_def)

subsection \<open>What the listeners leave alone\<close>

lemma or_empty: "(if s = [] then [] else s) = (s::jsstr)" by simp

lemma mostrarAlerta_fields:
  "peticiones (mostrarAlerta m t st) = peticiones st"
  "defaultPrevented (mostrarAlerta m t st) = defaultPrevented st"
  "contenedor (mostrarAlerta m t st) = contenedor st"
  "seccion_classList (mostrarAlerta m t st) = seccion_classList st"
  "alerta_textContent (mostrarAlerta m t st) = m"
  "alerta_className (mostrarAlerta m t st) = js ''alert alert-'' @ t @ js '' mx-auto''"
  by (simp_all add: mostrarAlerta_def)

lemma capturado_fields:
  "peticiones (capturado e st) = peticiones st"
  "defaultPrevented (capturado e st) = defaultPrevented st"
  "contenedor (capturado e st) = contenedor st"
  "seccion_classList (capturado e st) = seccion_classList st"
  "alerta_textContent (capturado e st) = error_comunicacion"
  "alerta_className (capturado e st) = js ''alert alert-'' @ js ''danger'' @ js '' mx-auto''"
  by (simp_all add: capturado_def mostrarAlerta_def)

lemma render_hits_frame:
  "render_hits N i hs st = (st', e) \<Longrightarrow> \<exists>items. st' = st\<lparr>contenedor := contenedor st @ items\<rparr>"
proof (induction hs arbitrary: i st)
  case Nil
  then have "st' = st\<lparr>contenedor := contenedor st @ []\<rparr>" by simp
  then show ?case by blast
next
  case (Cons h hs)
  show ?case
  proof (cases "render_hit N i h")
    case (Inl err)
    with Cons.prems have "st' = st\<lparr>contenedor := contenedor st @ []\<rparr>" by simp
    then show ?thesis by blast
  next
    case (Inr it)
    with Cons.prems
    have "render_hits N (i + 1) hs (st\<lparr>contenedor := contenedor st @ [HitItem it]\<rparr>) = (st', e)"
      by simp
    from Cons.IH[OF this] obtain items where
      "st' = st\<lparr>contenedor := contenedor st @ [HitItem it] @ items\<rparr>" by auto
    then show ?thesis by blast
  qed
qed

lemma renderResultados_frame:
  assumes "renderResultados N data st = (st', e)"
  shows "peticiones st' = peticiones st \<and> defaultPrevented st' = defaultPrevented st \<and>
         alerta_textContent st' = alerta_textContent st \<and> alerta_className st' = alerta_className st"
  using assms
  by (auto simp: renderResultados_def Let_def split: sum.splits prod.splits option.splits if_splits
           dest!: render_hits_frame)

lemma submit_elastic_peticiones:
  assumes "js_trim (input_value st) \<noteq> []"
  shows "peticiones (submit_elastic N net st) = peticiones st @ [peticion_elastic (js_trim (input_value st))]"
  using assms
  by (auto simp: submit_elastic_def Let_def or_empty mostrarAlerta_fields capturado_fields limpiarResultados_def ocultarAlerta_def
      split: fetch_result.splits option.splits sum.splits prod.splits dest!: renderResultados_frame)

lemma js_append: "js a @ js b = js (a @ b)"
  by (simp add: js_def)

lemma className_danger:
  "className_remove (js ''d-none'') (js ''alert alert-'' @ js ''danger'') = js ''alert alert-danger''"
  by (simp add: className_remove_def token_set_def js_def ascii_whitespace_def)

lemma contiene_prefix: "contiene p (p @ s)"
proof (cases "p @ s")
  case Nil
  then show ?thesis by simp
next
  case (Cons c cs)
  have "take (length p) (p @ s) = p" by simp
  with Cons show ?thesis by simp
qed

lemma contiene_append: "contiene p (a @ p @ s)"
proof (induction a)
  case Nil
  show ?case using contiene_prefix by simp
next
  case (Cons c a)
  then show ?case by simp
qed

lemma capturado3_fields:
  "b_peticiones (capturado3 e p) = b_peticiones p"
  "b_uncaught (capturado3 e p) = b_uncaught p"
  "b_contenedor (capturado3 e p) = b_contenedor p"
  "b_seccion (capturado3 e p) = b_seccion p"
  "b_console_errors (capturado3 e p) = b_console_errors p @ [e]"
  "b_alerta (capturado3 e p) = mostrarAlerta3 (b_alerta p) error_comunicacion (js ''danger'')"
  by (simp_all add: capturado3_def)

lemma submit_buscar_peticiones:
  assumes "b_input p = Some v" and "js_trim v \<noteq> []"
    and "b_seccion p = Some cl" and "b_contenedor p = Some old"
  shows "b_peticiones (submit_buscar N net p) = b_peticiones p @ [peticion_buscar (js_trim v)]"
  using assms
  by (simp add: submit_buscar_def Let_def capturado3_fields
      split: fetch_result.splits option.splits sum.splits prod.splits)

subsection \<open>One request for each submission\<close>

text \<open>
  C1. A submit whose trimmed input is not empty is to issue exactly one request. The
  \<open>/buscar\<close> listener does not on a page that lacks the results section or the results
  container: its writes to them come before the \<open>try\<close> and are not guarded, so it
  throws a TypeError out of the listener and \<open>fetch\<close> is never called, whatever the
  network would have answered.
\<close>

theorem submit_without_section_throws:
  assumes "b_input p = Some v" and "js_trim v \<noteq> []"
    and "b_seccion p = None \<or> b_contenedor p = None"
  shows "b_peticiones (submit_buscar N net p) = b_peticiones p
       \<and> b_uncaught (submit_buscar N net p) = Some TypeError"
  using assms
  by (auto simp: submit_buscar_def Let_def split: option.splits)

theorem submit_without_section_throws_witness:
  "b_input pagina_sin_seccion = Some (js ''ley'') \<and> js_trim (js ''ley'') \<noteq> []
   \<and> b_seccion pagina_sin_seccion = None
   \<and> b_peticiones (submit_buscar int_engine (Responded 200 (Some (Obj []))) pagina_sin_seccion) = []
   \<and> b_uncaught (submit_buscar int_engine (Responded 200 (Some (Obj []))) pagina_sin_seccion)
       = Some TypeError"
proof -
  have a: "b_input pagina_sin_seccion = Some (js ''ley'')"
    by (simp add: pagina_sin_seccion_def pagina_buscar_inicial_def)
  have b: "js_trim (js ''ley'') \<noteq> []"
    by (simp add: js_trim_def is_js_space_def js_def)
  have c: "b_seccion pagina_sin_seccion = None \<or> b_contenedor pagina_sin_seccion = None"
    by (simp add: pagina_sin_seccion_def)
  have d: "b_peticiones pagina_sin_seccion = []"
    by (simp add: pagina_sin_seccion_def pagina_buscar_inicial_def)
  show ?thesis
    using submit_without_section_throws [OF a b c, of int_engine "Responded 200 (Some (Obj []))"]
      a b d
    by (simp add: pagina_sin_seccion_def)
qed

text \<open>
  Everywhere else one submission is one request, whatever the network answers: the
  \<open>/buscar-elastic\<close> listener always, the \<open>/buscar\<close> listener on a page that holds the
  results section and the results container.
\<close>

lemma one_request_per_submit:
  "(js_trim (input_value st) \<noteq> [] \<longrightarrow>
      peticiones (submit_elastic N net st)
        = peticiones st @ [peticion_elastic (js_trim (input_value st))])
   \<and> (b_input p = Some v \<and> js_trim v \<noteq> [] \<and> b_seccion p \<noteq> None \<and> b_contenedor p \<noteq> None \<longrightarrow>
      b_peticiones (submit_buscar N net p) = b_peticiones p @ [peticion_buscar (js_trim v)])"
  using submit_elastic_peticiones submit_buscar_peticiones by blast

lemma one_request_per_submit_example:
  "js_trim (input_value pagina_inicial) \<noteq> []
   \<and> peticiones (submit_elastic int_engine Rejected pagina_inicial) = [peticion_elastic (js ''ley'')]
   \<and> b_input pagina_buscar_inicial = Some (js ''ley'') \<and> js_trim (js ''ley'') \<noteq> []
   \<and> b_seccion pagina_buscar_inicial \<noteq> None \<and> b_contenedor pagina_buscar_inicial \<noteq> None
   \<and> b_peticiones (submit_buscar int_engine Rejected pagina_buscar_inicial) = [peticion_buscar (js ''ley'')]"
  using one_request_per_submit [of pagina_inicial int_engine Rejected pagina_buscar_inicial "js ''ley''"]
  by (simp add: pagina_inicial_def pagina_buscar_inicial_def js_trim_def is_js_space_def js_def)

subsection \<open>An empty query\<close>

text \<open>
  C2. When the trimmed input is empty, the \<open>/buscar-elastic\<close> listener makes no
  request, prevents the default submission and shows the warning alert; the landing
  form prevents the default submission (the only request a submit could cause
  there), marks the input invalid and has an inline feedback element, created with
  its text when the form had none.
\<close>

theorem empty_query_blocked:
  "(js_trim (input_value st) = [] \<longrightarrow>
      peticiones (submit_elastic N net st) = peticiones st
      \<and> defaultPrevented (submit_elastic N net st)
      \<and> alerta_textContent (submit_elastic N net st) = js ''Por favor ingresa un texto para buscar.''
      \<and> alerta_className (submit_elastic N net st) = js ''alert alert-warning mx-auto'')
   \<and> (js_trim (q_input_value f) = [] \<longrightarrow>
      q_defaultPrevented (submit_landing f)
      \<and> js ''is-invalid'' \<in> set (q_input_classList (submit_landing f))
      \<and> q_feedback (submit_landing f) \<noteq> None
      \<and> (q_feedback f = None \<longrightarrow> q_feedback (submit_landing f) = Some ingresa_termino))"
  by (auto simp: submit_elastic_def submit_landing_def Let_def or_empty mostrarAlerta_def
        classList_add_def js_def split: option.splits)

theorem empty_query_blocked_witness:
  "js_trim (input_value (pagina_inicial\<lparr>input_value := js ''  ''\<rparr>)) = []
   \<and> peticiones (submit_elastic int_engine Rejected (pagina_inicial\<lparr>input_value := js ''  ''\<rparr>)) = []
   \<and> defaultPrevented (submit_elastic int_engine Rejected (pagina_inicial\<lparr>input_value := js ''  ''\<rparr>))
   \<and> alerta_className (submit_elastic int_engine Rejected (pagina_inicial\<lparr>input_value := js ''  ''\<rparr>))
       = js ''alert alert-warning mx-auto''
   \<and> js_trim (q_input_value formulario_inicial) = []
   \<and> q_feedback formulario_inicial = None
   \<and> q_defaultPrevented (submit_landing formulario_inicial)
   \<and> q_feedback (submit_landing formulario_inicial) = Some ingresa_termino"
  using empty_query_blocked [of "pagina_inicial\<lparr>input_value := js ''  ''\<rparr>" int_engine Rejected formulario_inicial]
  by (simp add: pagina_inicial_def formulario_inicial_def js_trim_def is_js_space_def js_def)

subsection \<open>A response without hits\<close>

text \<open>
  C3. For a 2xx response whose \<open>success\<close> is not \<open>false\<close> and whose extracted hit
  list is empty, the results container holds exactly the one element with the text
  "No se encontraron resultados.", the results section is visible and the alert is
  hidden.
\<close>

theorem sin_resultados_shown:
  assumes "js_trim (input_value st) \<noteq> []"
    and "resp_ok status"
    and "get data (js ''success'') \<noteq> Inr (Bool False)"
    and "extraerHits N data = Inr []"
  shows "contenedor (submit_elastic N (Responded status (Some data)) st) = [Html sin_resultados_html]
       \<and> sin_resultados_html =
           js ''<div class=\"list-group-item text-center text-muted\">''
           @ js ''No se encontraron resultados.'' @ js ''</div>''
       \<and> js ''d-none'' \<notin> set (seccion_classList (submit_elastic N (Responded status (Some data)) st))
       \<and> alerta_className (submit_elastic N (Responded status (Some data)) st) = js ''alert d-none mx-auto''"
proof -
  from assms(4) have nn: "data \<noteq> Null" "data \<noteq> Undefined"
    using extraerHits_defined by blast+
  then obtain t where t: "extraerTotal N data [] = Inr t"
    using extraerTotal_defined by blast
  have s: "get data (js ''success'') = Inr (field data (js ''success''))"
    using nn by (simp add: get_defined)
  with assms(3) have f: "field data (js ''success'') \<noteq> Bool False" by simp
  have r: "\<And>s. renderResultados N data s =
        (s\<lparr>ultimaBusqueda := [], contenedor := [Html sin_resultados_html],
           total_textContent := total_text N t,
           seccion_classList := classList_remove (js ''d-none'') (seccion_classList s)\<rparr>, None)"
    by (simp add: renderResultados_def assms(4) t Let_def)
  show ?thesis
    using assms(1,2) f
    by (simp add: submit_elastic_def Let_def or_empty s r ocultarAlerta_def mostrarAlerta_def
          limpiarResultados_def classList_remove_def sin_resultados_html_def sin_resultados_def)
qed

theorem sin_resultados_shown_witness:
  "js_trim (input_value pagina_inicial) \<noteq> [] \<and> resp_ok 200
   \<and> get data_vacia (js ''success'') \<noteq> Inr (Bool False)
   \<and> extraerHits int_engine data_vacia = Inr []
   \<and> contenedor (submit_elastic int_engine (Responded 200 (Some data_vacia)) pagina_inicial)
       = [Html sin_resultados_html]
   \<and> js ''d-none'' \<notin> set (seccion_classList
         (submit_elastic int_engine (Responded 200 (Some data_vacia)) pagina_inicial))"
proof -
  have a: "js_trim (input_value pagina_inicial) \<noteq> []"
    by (simp add: pagina_inicial_def js_trim_def is_js_space_def js_def)
  have b: "resp_ok 200" by (simp add: resp_ok_def)
  have c: "get data_vacia (js ''success'') \<noteq> Inr (Bool False)"
    by (simp add: data_vacia_def js_def)
  have d: "extraerHits int_engine data_vacia = Inr []"
    by (simp add: data_vacia_def extraerHits_def bindE_def js_def)
  show ?thesis
    using sin_resultados_shown [OF a b c d] a b c d by simp
qed

subsection \<open>A response with success false\<close>

text \<open>
  C4, as the code has it. For a 2xx response with \<open>success === false\<close> a danger alert
  is shown, no results are rendered and the results section stays hidden. The alert
  shows the text of the \<open>error\<close> field when that field is truthy, and the fixed text
  \<open>error_busqueda\<close> when it is missing or falsy; when a truthy \<open>error\<close> has no text
  (the conversion throws), the exception is caught and the alert shows
  \<open>error_comunicacion\<close>.
\<close>

theorem success_false_alert:
  assumes "js_trim (input_value st) \<noteq> []" and "resp_ok status"
    and "get data (js ''success'') = Inr (Bool False)"
  shows "alerta_textContent (submit_elastic N (Responded status (Some data)) st)
           = (if truthy N (field data (js ''error''))
              then (case to_string N (field data (js ''error'')) of
                      Inr mensaje \<Rightarrow> mensaje
                    | Inl e \<Rightarrow> js ''Error de comunicaci'' @ [0xF3] @ js ''n con el servidor.'')
              else js ''Error en la b'' @ [0xFA] @ js ''squeda.'')
       \<and> alerta_className (submit_elastic N (Responded status (Some data)) st)
           = js ''alert alert-danger mx-auto''
       \<and> contenedor (submit_elastic N (Responded status (Some data)) st) = []
       \<and> js ''d-none'' \<in> set (seccion_classList (submit_elastic N (Responded status (Some data)) st))"
proof -
  from assms(3) have nn: "data \<noteq> Null" "data \<noteq> Undefined" by auto
  then have e: "get data (js ''error'') = Inr (field data (js ''error''))"
    by (simp add: get_defined)
  show ?thesis
    using assms
    by (simp add: submit_elastic_def Let_def or_empty e mostrarAlerta_def capturado_def
          limpiarResultados_def classList_add_def error_busqueda_def error_comunicacion_def
          js_append split: sum.splits)
qed

theorem success_false_alert_witness:
  "js_trim (input_value pagina_inicial) \<noteq> [] \<and> resp_ok 200
   \<and> get (Obj [(js ''success'', Bool False), (js ''error'', Str (js ''index missing''))] :: int jsval)
        (js ''success'') = Inr (Bool False)
   \<and> alerta_textContent (submit_elastic int_engine
        (Responded 200 (Some (Obj [(js ''success'', Bool False), (js ''error'', Str (js ''index missing''))])))
        pagina_inicial) = js ''index missing''"
proof -
  have a: "js_trim (input_value pagina_inicial) \<noteq> []"
    by (simp add: pagina_inicial_def js_trim_def is_js_space_def js_def)
  have b: "resp_ok 200" by (simp add: resp_ok_def)
  have c: "get (Obj [(js ''success'', Bool False), (js ''error'', Str (js ''index missing''))] :: int jsval)
        (js ''success'') = Inr (Bool False)"
    by (simp add: js_def)
  show ?thesis
    using success_false_alert [OF a b c, of int_engine] a b c by (simp add: js_def)
qed

text \<open>A response \<open>{success: false}\<close> has no \<open>error\<close> field to show: the alert shows the fixed text.\<close>

theorem success_false_without_error_counterexample:
  "js_trim (input_value pagina_inicial) \<noteq> [] \<and> resp_ok 200
   \<and> get data_fallida (js ''success'') = Inr (Bool False)
   \<and> get data_fallida (js ''error'') = Inr Undefined
   \<and> alerta_textContent (submit_elastic int_engine (Responded 200 (Some data_fallida)) pagina_inicial)
       = error_busqueda
   \<and> to_string int_engine (field data_fallida (js ''error''))
       \<noteq> Inr (alerta_textContent
                (submit_elastic int_engine (Responded 200 (Some data_fallida)) pagina_inicial))"
  by (simp add: data_fallida_def pagina_inicial_def submit_elastic_def Let_def resp_ok_def
        mostrarAlerta_def limpiarResultados_def error_busqueda_def js_trim_def is_js_space_def js_def)

text \<open>
  An \<open>error\<close> that is an object with an own \<open>toString\<close> property has no text: the
  assignment to \<open>textContent\<close> throws inside the \<open>try\<close>.
\<close>

lemma success_false_error_without_text:
  "alerta_textContent
     (submit_elastic int_engine
        (Responded 200
           (Some (Obj [(js ''success'', Bool False),
                       (js ''error'', Obj [(js ''toString'', Num 1)])])))
        pagina_inicial)
   = error_comunicacion"
  by (simp add: pagina_inicial_def submit_elastic_def Let_def resp_ok_def capturado_def
        mostrarAlerta_def limpiarResultados_def js_trim_def is_js_space_def js_def)

subsection \<open>A response that is not 2xx\<close>

text \<open>
  C5, as the code has it. For a response whose status is not 2xx, the
  \<open>/buscar-elastic\<close> listener shows a danger alert whose text holds the status code;
  the \<open>/buscar\<close> listener throws and catches an error of its own and shows, where
  the page has the alert element, the generic communication-error danger alert,
  without the status code. Neither renders results.
\<close>

theorem http_error_alert:
  assumes "\<not> resp_ok status"
  shows "(js_trim (input_value st) \<noteq> [] \<longrightarrow>
            alerta_textContent (submit_elastic N (Responded status parsed) st)
              = js ''Error al comunicarse con el servidor (HTTP '' @ dec status @ js '').''
          \<and> contiene (dec status) (alerta_textContent (submit_elastic N (Responded status parsed) st))
          \<and> alerta_className (submit_elastic N (Responded status parsed) st)
              = js ''alert alert-danger mx-auto''
          \<and> contenedor (submit_elastic N (Responded status parsed) st) = []
          \<and> js ''d-none'' \<in> set (seccion_classList (submit_elastic N (Responded status parsed) st)))
       \<and> (b_input p = Some v \<and> js_trim v \<noteq> [] \<and> b_seccion p = Some cl
            \<and> b_contenedor p = Some old \<and> b_alerta p = Some a \<longrightarrow>
            b_alerta (submit_buscar N (Responded status parsed) p)
              = Some \<lparr>alerta_texto = js ''Error de comunicaci'' @ [0xF3] @ js ''n con el servidor.'',
                      alerta_clase = js ''alert alert-danger''\<rparr>
          \<and> b_contenedor (submit_buscar N (Responded status parsed) p) = Some []
          \<and> b_seccion (submit_buscar N (Responded status parsed) p)
              = Some (classList_add (js ''d-none'') cl))"
proof -
  have "className_remove (js ''d-none'') (js ''alert alert-'' @ js ''danger'') = js ''alert alert-danger''"
    by (rule className_danger)
  moreover have "contiene (dec status)
      (js ''Error al comunicarse con el servidor (HTTP '' @ dec status @ js '').'')"
    by (rule contiene_append)
  ultimately show ?thesis
    using assms
    by (simp add: submit_elastic_def submit_buscar_def Let_def or_empty mostrarAlerta_def
          limpiarResultados_def classList_add_def error_http_def capturado3_def mostrarAlerta3_def
          error_comunicacion_def js_append)
qed

theorem http_error_alert_witness:
  "\<not> resp_ok 500 \<and> js_trim (input_value pagina_inicial) \<noteq> []
   \<and> alerta_textContent (submit_elastic int_engine (Responded 500 None) pagina_inicial)
       = js ''Error al comunicarse con el servidor (HTTP 500).''
   \<and> b_input pagina_buscar_inicial = Some (js ''ley'') \<and> js_trim (js ''ley'') \<noteq> []
   \<and> b_seccion pagina_buscar_inicial = Some [js ''d-none'']
   \<and> b_contenedor pagina_buscar_inicial = Some []
   \<and> b_alerta pagina_buscar_inicial = Some \<lparr>alerta_texto = [], alerta_clase = js ''alert d-none''\<rparr>
   \<and> b_alerta (submit_buscar int_engine (Responded 500 None) pagina_buscar_inicial)
       = Some \<lparr>alerta_texto = js ''Error de comunicaci'' @ [0xF3] @ js ''n con el servidor.'',
               alerta_clase = js ''alert alert-danger''\<rparr>"
proof -
  have a: "\<not> resp_ok 500" by (simp add: resp_ok_def)
  have b: "js_trim (js ''ley'') \<noteq> []" by (simp add: js_trim_def is_js_space_def js_def)
  have c: "dec 500 = js ''500''" by (simp add: dec.simps js_def)
  show ?thesis
    using http_error_alert [OF a, of pagina_inicial int_engine None pagina_buscar_inicial "js ''ley''"
        "[js ''d-none'']" "[]" "\<lparr>alerta_texto = [], alerta_clase = js ''alert d-none''\<rparr>"] a b c
    by (simp add: pagina_inicial_def pagina_buscar_inicial_def js_def)
qed

text \<open>At status 500 the alert of the \<open>/buscar\<close> listener does not hold the text 500.\<close>

theorem http_error_generic_counterexample:
  "\<not> resp_ok 500
   \<and> b_alerta (submit_buscar int_engine (Responded 500 None) pagina_buscar_inicial)
       = Some \<lparr>alerta_texto = error_comunicacion, alerta_clase = js ''alert alert-danger''\<rparr>
   \<and> \<not> contiene (dec 500) error_comunicacion"
proof -
  have a: "\<not> resp_ok 500" by (simp add: resp_ok_def)
  have b: "js_trim (js ''ley'') \<noteq> []" by (simp add: js_trim_def is_js_space_def js_def)
  have c: "\<not> contiene (dec 500) error_comunicacion"
    by (simp add: error_comunicacion_def dec.simps js_def)
  have d: "b_alerta (submit_buscar int_engine (Responded 500 None) pagina_buscar_inicial)
       = Some \<lparr>alerta_texto = error_comunicacion, alerta_clase = js ''alert alert-danger''\<rparr>"
    using a b className_danger
    by (simp add: submit_buscar_def pagina_buscar_inicial_def Let_def capturado3_def mostrarAlerta3_def)
  show ?thesis using a c d by simp
qed

subsection \<open>Exceptions of the network call and of JSON parsing\<close>

text \<open>
  C6, as the code has it. When \<open>fetch\<close> rejects, or a 2xx body does not parse as JSON,
  the exception is caught and logged, the one request is not repeated, and the generic
  danger alert is shown: by the \<open>/buscar-elastic\<close> listener always, by the \<open>/buscar\<close>
  listener when the page has the alert element.
\<close>

theorem exception_shows_generic_alert:
  assumes "net = Rejected \<or> (\<exists>status. resp_ok status \<and> net = Responded status None)"
  shows "(js_trim (input_value st) \<noteq> [] \<longrightarrow>
            alerta_textContent (submit_elastic N net st)
              = js ''Error de comunicaci'' @ [0xF3] @ js ''n con el servidor.''
          \<and> alerta_className (submit_elastic N net st) = js ''alert alert-danger mx-auto''
          \<and> length (console_errors (submit_elastic N net st)) = length (console_errors st) + 1
          \<and> peticiones (submit_elastic N net st)
              = peticiones st @ [peticion_elastic (js_trim (input_value st))])
       \<and> (b_input p = Some v \<and> js_trim v \<noteq> [] \<and> b_seccion p = Some cl
            \<and> b_contenedor p = Some old \<and> b_alerta p = Some a \<longrightarrow>
            b_alerta (submit_buscar N net p)
              = Some \<lparr>alerta_texto = js ''Error de comunicaci'' @ [0xF3] @ js ''n con el servidor.'',
                      alerta_clase = js ''alert alert-danger''\<rparr>
          \<and> length (b_console_errors (submit_buscar N net p)) = length (b_console_errors p) + 1
          \<and> b_uncaught (submit_buscar N net p) = b_uncaught p
          \<and> b_peticiones (submit_buscar N net p) = b_peticiones p @ [peticion_buscar (js_trim v)])"
proof -
  have "className_remove (js ''d-none'') (js ''alert alert-'' @ js ''danger'') = js ''alert alert-danger''"
    by (rule className_danger)
  then show ?thesis
    using assms
    by (auto simp: submit_elastic_def submit_buscar_def Let_def or_empty mostrarAlerta_def
          limpiarResultados_def capturado_def capturado3_def mostrarAlerta3_def
          error_comunicacion_def js_append)
qed

theorem exception_shows_generic_alert_witness:
  "js_trim (input_value pagina_inicial) \<noteq> []
   \<and> alerta_textContent (submit_elastic int_engine Rejected pagina_inicial)
       = js ''Error de comunicaci'' @ [0xF3] @ js ''n con el servidor.''
   \<and> peticiones (submit_elastic int_engine Rejected pagina_inicial) = [peticion_elastic (js ''ley'')]
   \<and> b_input pagina_buscar_inicial = Some (js ''ley'') \<and> js_trim (js ''ley'') \<noteq> []
   \<and> b_seccion pagina_buscar_inicial = Some [js ''d-none'']
   \<and> b_contenedor pagina_buscar_inicial = Some []
   \<and> b_alerta pagina_buscar_inicial = Some \<lparr>alerta_texto = [], alerta_clase = js ''alert d-none''\<rparr>
   \<and> b_alerta (submit_buscar int_engine Rejected pagina_buscar_inicial)
       = Some \<lparr>alerta_texto = js ''Error de comunicaci'' @ [0xF3] @ js ''n con el servidor.'',
               alerta_clase = js ''alert alert-danger''\<rparr>
   \<and> b_peticiones (submit_buscar int_engine Rejected pagina_buscar_inicial) = [peticion_buscar (js ''ley'')]"
proof -
  have b: "js_trim (js ''ley'') = js ''ley''" by (simp add: js_trim_def is_js_space_def js_def)
  have c: "js ''ley'' \<noteq> []" by (simp add: js_def)
  show ?thesis
    using exception_shows_generic_alert [of "Rejected :: int fetch_result" pagina_inicial int_engine
        pagina_buscar_inicial "js ''ley''" "[js ''d-none'']" "[]"
        "\<lparr>alerta_texto = [], alerta_clase = js ''alert d-none''\<rparr>"] b c
    by (simp add: pagina_inicial_def pagina_buscar_inicial_def)
qed

text \<open>
  On a page without the alert element \<open>mostrarAlerta\<close> returns at once: the exception is
  caught and logged, and nothing is shown.
\<close>

theorem exception_without_alert_counterexample:
  "b_peticiones (submit_buscar int_engine Rejected pagina_sin_alerta) = [peticion_buscar (js ''ley'')]
   \<and> b_console_errors (submit_buscar int_engine Rejected pagina_sin_alerta) = [FetchRejected]
   \<and> b_alerta (submit_buscar int_engine Rejected pagina_sin_alerta) = None"
proof -
  have b: "js_trim (js ''ley'') = js ''ley''" by (simp add: js_trim_def is_js_space_def js_def)
  have c: "js ''ley'' \<noteq> []" by (simp add: js_def)
  show ?thesis using b c
    by (simp add: pagina_sin_alerta_def pagina_buscar_inicial_def submit_buscar_def Let_def
        capturado3_def mostrarAlerta3_def)
qed

subsection \<open>The request to /buscar-elastic\<close>

text \<open>
  C7. For a trimmed query that is not empty, the request the listener sends is a POST to
  \<open>/buscar-elastic\<close> with the header Content-Type application/json, and its body is the
  JSON text of the object with \<open>texto\<close> the query and \<open>size\<close> 20.
\<close>

theorem buscar_elastic_request:
  assumes "js_trim (input_value st) \<noteq> []"
  shows "peticiones (submit_elastic N net st) =
         peticiones st @
           [\<lparr>url = js ''/buscar-elastic'', http_method = js ''POST'',
             headers = [(js ''Content-Type'', js ''application/json'')],
             payload = ElasticBody (js_trim (input_value st)) 20\<rparr>]"
  using submit_elastic_peticiones[OF assms] by (simp add: peticion_elastic_def)

theorem buscar_elastic_request_witness:
  "js_trim (input_value pagina_inicial) \<noteq> []
   \<and> peticiones (submit_elastic int_engine Rejected pagina_inicial) =
       [\<lparr>url = js ''/buscar-elastic'', http_method = js ''POST'',
         headers = [(js ''Content-Type'', js ''application/json'')],
         payload = ElasticBody (js ''ley'') 20\<rparr>]"
  using buscar_elastic_request [of pagina_inicial int_engine Rejected]
  by (simp add: pagina_inicial_def js_trim_def is_js_space_def js_def)

subsection \<open>The hit list\<close>

text \<open>
  C8. For every response value other than null and undefined (so for every response
  object), \<open>extraerHits\<close> returns \<open>data.hits\<close> when it is an array, otherwise
  \<open>data.hits.hits\<close> when that is an array, otherwise \<open>data.resultados\<close> when that is an
  array, otherwise the empty array; the result is always a list.
\<close>

theorem extraerHits_fallback_chain:
  assumes "data \<noteq> Null" and "data \<noteq> Undefined"
  shows "extraerHits N data = Inr (extraerHits_spec data)"
proof (cases "truthy N (field data (js ''hits''))")
  case True
  then show ?thesis
    using assms by (simp add: extraerHits_def extraerHits_spec_def bindE_def get_defined get_truthy)
next
  case False
  then have "field (field data (js ''hits'')) (js ''hits'') = Undefined"
    by (rule field_falsy)
  with False show ?thesis
    using assms by (simp add: extraerHits_def extraerHits_spec_def bindE_def get_defined)
qed

theorem extraerHits_fallback_chain_witness:
  "Obj [(js ''hits'', Obj [(js ''hits'', Arr [Str (js ''a'')])])] \<noteq> (Null :: int jsval)
   \<and> Obj [(js ''hits'', Obj [(js ''hits'', Arr [Str (js ''a'')])])] \<noteq> (Undefined :: int jsval)
   \<and> extraerHits int_engine (Obj [(js ''hits'', Obj [(js ''hits'', Arr [Str (js ''a'')])])])
       = Inr [Str (js ''a'')]"
  using extraerHits_fallback_chain
          [of "Obj [(js ''hits'', Obj [(js ''hits'', Arr [Str (js ''a'')])])]" int_engine]
  by (simp add: extraerHits_spec_def)

subsection \<open>The footer year\<close>

text \<open>
  C9. When the page loads, the element with id \<open>current-year\<close>, if there is one, gets
  the current year as its text and nothing else changes; if there is none, nothing
  changes.
\<close>

theorem footer_year_set:
  "(current_year d = None \<longrightarrow> onDOMContentLoaded fullYear d = d)
   \<and> (current_year d \<noteq> None \<longrightarrow>
        onDOMContentLoaded fullYear d = d\<lparr>current_year := Some (dec_int fullYear)\<rparr>)"
  by (auto simp: onDOMContentLoaded_def split: option.splits)

theorem footer_year_set_witness:
  "current_year \<lparr>current_year = None\<rparr> = None
   \<and> onDOMContentLoaded 2026 \<lparr>current_year = None\<rparr> = \<lparr>current_year = None\<rparr>
   \<and> current_year \<lparr>current_year = Some (js ''2024'')\<rparr> \<noteq> None
   \<and> onDOMContentLoaded 2026 \<lparr>current_year = Some (js ''2024'')\<rparr> = \<lparr>current_year = Some (js ''2026'')\<rparr>"
proof -
  have "dec_int 2026 = js ''2026''" by (simp add: dec_int_def dec.simps js_def)
  then show ?thesis
    using footer_year_set [of "\<lparr>current_year = None\<rparr>" 2026]
      footer_year_set [of "\<lparr>current_year = Some (js ''2024'')\<rparr>" 2026]
    by simp
qed

subsection \<open>The snippet of a hit\<close>

text \<open>
  Where the long text of a hit (the first truthy of \<open>resumen\<close>, \<open>extracto\<close>, \<open>texto\<close>,
  \<open>contenido\<close>, or the title when none is) is a string, the snippet is that string,
  cut to its first 260 code units followed by the ellipsis when it is longer: at most
  261 code units. If the hit is rendered, that snippet is what the template puts in
  the paragraph of the item's markup.
\<close>

lemma snippet_of_text:
  assumes "source_of N hit = Inr src"
    and "textoLargo_of N src = Inr textoLargo"
    and "titulo_of N src = Inr titulo"
    and "(if truthy N textoLargo then textoLargo else titulo) = Str t"
  shows "\<exists>v. hit_values_of N hit = Inr v
          \<and> v_source v = src
          \<and> v_snippet v = Str (if 260 < length t then take 260 t @ ellipsis else t)
          \<and> length (if 260 < length t then take 260 t @ ellipsis else t) \<le> 261"
proof -
  from source_of_defined[OF assms(1)]
  have s: "src \<noteq> Null" "src \<noteq> Undefined" and h: "hit \<noteq> Null" "hit \<noteq> Undefined" by simp_all
  obtain anio where anio: "first_truthy N src
      [js ''anio'', js ''a'' @ [0xF1] @ js ''o'', js ''anio_publicacion'', js ''fecha''] (Str []) = Inr anio"
    using first_truthy_defined[OF s] by blast
  obtain tipo where tipo: "first_truthy N src
      [js ''tipo_norma'', js ''tipo_documento'', js ''tipo''] (Str []) = Inr tipo"
    using first_truthy_defined[OF s] by blast
  obtain entidad where entidad: "first_truthy N src
      [js ''entidad'', js ''emisor'', js ''organismo''] (Str []) = Inr entidad"
    using first_truthy_defined[OF s] by blast
  have sc: "get hit (js ''_score'') = Inr (field hit (js ''_score''))"
    using h by (simp add: get_defined)
  have sn: "snippet_of N textoLargo titulo
              = Inr (Str (if 260 < length t then take 260 t @ ellipsis else t))"
    using assms(4) by (simp add: snippet_of_def Let_def bindE_def)
  have "hit_values_of N hit =
          Inr \<lparr>v_source = src, v_anio = anio, v_tipo = tipo, v_entidad = entidad,
               v_titulo = titulo,
               v_snippet = Str (if 260 < length t then take 260 t @ ellipsis else t),
               v_score = (case field hit (js ''_score'') of
                            Num n \<Rightarrow> Some (to_fixed_4 N n) | _ \<Rightarrow> None)\<rparr>"
    unfolding hit_values_of_def
    by (simp only: assms(1,2,3) anio tipo entidad sc sn bindE_def sum.case)
  then show ?thesis by (simp add: ellipsis_def)
qed

lemma snippet_in_markup:
  assumes "render_hit N index hit = Inr it"
    and "hit_values_of N hit = Inr v"
    and "v_snippet v = Str s"
  shows "\<exists>titulo anio tipo entidad score.
           item_innerHTML it
             = plantilla titulo anio tipo entidad score (dec (index + 1)) s
                 (json_pretty N (v_source v))"
proof -
  from assms(1,2) obtain html where h: "plantilla_item N index v = Inr html"
    and it: "item_innerHTML it = html"
    by (auto simp: render_hit_def bindE_def split: sum.splits if_splits)
  from h assms(3) have "\<exists>titulo anio tipo entidad score.
      html = plantilla titulo anio tipo entidad score (dec (index + 1)) s
               (json_pretty N (v_source v))"
    by (fastforce simp: plantilla_item_def bindE_def split: sum.splits)
  with it show ?thesis by simp
qed

lemma snippet_of_text_example:
  "map_sum id v_snippet (hit_values_of int_engine hit_largo)
     = Inr (Str (replicate 260 0x61 @ ellipsis))"
proof -
  let ?src = "Obj [(js ''titulo'', Str (js ''Ley 142'')), (js ''texto'', Str (replicate 300 0x61))] :: int jsval"
  have a: "source_of int_engine hit_largo = Inr ?src"
    by (simp add: source_of_def hit_largo_def bindE_def js_def)
  have b: "textoLargo_of int_engine ?src = Inr (Str (replicate 300 0x61))"
    by (simp add: textoLargo_of_def bindE_def js_def)
  have c: "titulo_of int_engine ?src = Inr (Str (js ''Ley 142''))"
    by (simp add: titulo_of_def bindE_def js_def)
  have d: "(if truthy int_engine (Str (replicate 300 0x61)) then Str (replicate 300 0x61) else Str (js ''Ley 142''))
            = (Str (replicate 300 0x61) :: int jsval)"
    by simp
  show ?thesis
    using snippet_of_text [OF a b c d] by auto
qed



end
